theory Spec2Isabelle
  imports Main
begin

section \<open>The HTTP wrapper of custom_requests\<close>

text \<open>
  The package wraps an HTTP client (the transport). \<^verbatim>\<open>Request\<close> is the session: it
  sends one of four verbs through the transport, classifies the status code of the
  answer and either hands the answer back wrapped in a \<^verbatim>\<open>Response\<close> or raises.

  Conventions of the embedding:
  \<^item> a Python dict is an association list, a tuple is a list; both are falsy exactly
    when empty, which is what \<^verbatim>\<open>x or y\<close> tests;
  \<^item> a raised exception is the left injection of a sum, a returned value the right one;
  \<^item> a method of the session takes the session and returns it next to its outcome, so
    that what a call does to the session's fields is a statement about the model;
  \<^item> the transport is a parameter: a function from the verb's name and the keyword
    arguments of lines 87-94 to the answer, or to the exception the transport raised;
  \<^item> the calls to the logger (lines 95, 103, 117, 143, 168, 194 and the constructors
    of the exceptions) write to a log sink only; they decide no outcome and touch no
    field of the session, and are left out.
\<close>

subsection \<open>Data\<close>

type_synonym dict = "(string \<times> string) list"

text \<open>The structured data a body parses to.\<close>

datatype json_value =
    JNull
  | JBool bool
  | JNumber int
  | JString string
  | JArray "json_value list"
  | JObject "(string \<times> json_value) list"

text \<open>
  The transport's answer, with the attributes the wrapper reads. The attribute
  \<^verbatim>\<open>text\<close> is the field \<open>body_text\<close>. The field \<open>json\<close> is
  the outcome of the answer's method \<^verbatim>\<open>json()\<close>: \<open>None\<close> when it raises
  \<^verbatim>\<open>ValueError\<close>, the parsed value otherwise.
\<close>

record raw_response =
  url :: string
  headers :: dict
  status_code :: int
  reason :: string
  body_text :: string
  json :: "json_value option"

text \<open>
  The exceptions of \<^verbatim>\<open>lib/exceptions.py\<close>, each with the arguments of its constructor,
  and the two kinds the transport raises itself: \<open>HTTPError\<close>, raised by
  \<^verbatim>\<open>raise_for_status\<close> for the answer it is called on, and \<open>TransportFailure\<close>, any
  exception of the verb call of lines 87-94 (a refused connection, a timeout).
\<close>

datatype error =
    UnexpectedStatusCode string int string string
  | UnexpectedRequestResult int string raw_response
  | RateLimitedError string int string
  | HTTPError raw_response
  | TransportFailure string

text \<open>The subclasses of \<^verbatim>\<open>LogException\<close>: the typed errors of the package.\<close>

fun is_LogException :: "error \<Rightarrow> bool" where
  "is_LogException (UnexpectedStatusCode _ _ _ _) = True"
| "is_LogException (UnexpectedRequestResult _ _ _) = True"
| "is_LogException (RateLimitedError _ _ _) = True"
| "is_LogException (HTTPError _) = False"
| "is_LogException (TransportFailure _) = False"

text \<open>
  An element of a tuple of status codes: a number, or a string such as the wildcard.
  Python's \<^verbatim>\<open>in\<close> compares with \<^verbatim>\<open>==\<close>, and a number never equals a string.
\<close>

datatype status_elem = PyInt int | PyStr string

text \<open>The fields \<^verbatim>\<open>Request.__init__\<close> sets (lines 71-74).\<close>

record session =
  base_url :: string
  request_headers :: dict
  timeout :: "int list"
  allowed_status_codes :: "status_elem list"

definition Request_init :: session where
  "Request_init =
     \<lparr>base_url = [], request_headers = [], timeout = [10, 15],
      allowed_status_codes = [PyInt 200]\<rparr>"

type_synonym transport =
  "string \<Rightarrow> string \<Rightarrow> dict option \<Rightarrow> dict \<Rightarrow> string list \<Rightarrow> bool \<Rightarrow> int list
     \<Rightarrow> error + raw_response"

subsection \<open>Response\<close>

datatype Response = Response (request: raw_response)

definition Response_url :: "Response \<Rightarrow> string" where
  "Response_url self = url (request self)"

definition Response_headers :: "Response \<Rightarrow> dict" where
  "Response_headers self = headers (request self)"

definition Response_status_code :: "Response \<Rightarrow> int" where
  "Response_status_code self = status_code (request self)"

definition Response_reason :: "Response \<Rightarrow> string" where
  "Response_reason self = reason (request self)"

text \<open>
  Lines 44-49: the parsed body, or \<^verbatim>\<open>UnexpectedRequestResult\<close> built from the
  properties \<^verbatim>\<open>status_code\<close> and \<^verbatim>\<open>reason\<close> and the answer's whole state.
\<close>

definition Response_json :: "Response \<Rightarrow> error + json_value" where
  "Response_json self =
     (case json (request self) of
        Some v \<Rightarrow> Inr v
      | None \<Rightarrow>
          Inl (UnexpectedRequestResult (Response_status_code self) (Response_reason self)
                 (request self)))"

definition Response_text :: "Response \<Rightarrow> string" where
  "Response_text self = body_text (request self)"

definition Response_str :: "Response \<Rightarrow> string" where
  "Response_str self = Response_text self"

subsection \<open>The transport's status error\<close>

text \<open>
  \<^verbatim>\<open>raise_for_status\<close> is a method of the transport's answer and lives in the HTTP
  client library, outside this repository. The library raises its \<^verbatim>\<open>HTTPError\<close> for
  the client errors (400 to 499) and the server errors (500 to 599) and returns for
  every other status code; the comment of line 101 says as much ("for 4xx and 5xx").
\<close>

definition raise_for_status :: "raw_response \<Rightarrow> error + unit" where
  "raise_for_status req =
     (if 400 \<le> status_code req \<and> status_code req < 600 then Inl (HTTPError req)
      else Inr ())"

subsection \<open>Request\<close>

text \<open>Python's \<^verbatim>\<open>d or dict()\<close> for an optional dict \<open>d\<close>.\<close>

definition or_dict :: "dict option \<Rightarrow> dict" where
  "or_dict d = (case d of None \<Rightarrow> [] | Some kv \<Rightarrow> if kv = [] then [] else kv)"

text \<open>Lines 87-94: the verb of the transport, with the session's defaults filled in.\<close>

definition transport_call ::
  "session \<Rightarrow> transport \<Rightarrow> string \<Rightarrow> string \<Rightarrow> dict \<Rightarrow> dict \<Rightarrow> string list \<Rightarrow> bool
     \<Rightarrow> int list \<Rightarrow> error + raw_response" where
  "transport_call self t method url' data headers' auth allow_redirects timeout' =
     t method url'
       (if data = [] then None else Some data)
       (if headers' = [] then request_headers self else headers')
       auth allow_redirects
       (if timeout' = [] then timeout self else timeout')"

text \<open>
  The allow-list a call is judged against, \<^verbatim>\<open>status_codes or self.allowed_status_codes\<close>,
  and the condition of line 98.
\<close>

definition effective_status_codes :: "session \<Rightarrow> status_elem list \<Rightarrow> status_elem list" where
  "effective_status_codes self status_codes =
     (if status_codes = [] then allowed_status_codes self else status_codes)"

definition not_allowed :: "session \<Rightarrow> status_elem list \<Rightarrow> raw_response \<Rightarrow> bool" where
  "not_allowed self status_codes req \<longleftrightarrow>
     PyInt (status_code req) \<notin> set (effective_status_codes self status_codes)
     \<and> PyStr ''*'' \<notin> set status_codes"

text \<open>\<^verbatim>\<open>Request._request\<close>, lines 76-104.\<close>

definition Request_request ::
  "session \<Rightarrow> transport \<Rightarrow> string \<Rightarrow> string \<Rightarrow> dict \<Rightarrow> dict \<Rightarrow> string list \<Rightarrow> bool
     \<Rightarrow> int list \<Rightarrow> status_elem list \<Rightarrow> (error + raw_response) \<times> session" where
  "Request_request self t method url' data headers' auth allow_redirects timeout' status_codes =
     (case transport_call self t method url' data headers' auth allow_redirects timeout' of
        Inl e \<Rightarrow> (Inl e, self)
      | Inr req \<Rightarrow>
          if status_code req = 429
          then (Inl (RateLimitedError (url req) (status_code req) (reason req)), self)
          else if not_allowed self status_codes req
          then
            (if status_code req \<noteq> 200
             then
               (case (if status_code req \<noteq> 404 then raise_for_status req else Inr ()) of
                  Inl e \<Rightarrow> (Inl e, self)
                | Inr _ \<Rightarrow>
                    (Inl (UnexpectedStatusCode (url req) (status_code req) (reason req)
                            (body_text req)), self))
             else (Inr req, self))
          else (Inr req, self))"

text \<open>
  Modelled from the spec: the decorator \<^verbatim>\<open>Retry(jitter=True)\<close> of the package
  \<^verbatim>\<open>retry_decorator\<close>, which is not part of this repository. Section 6 of the
  specification: it "catches failures and re-invokes the wrapped call after a randomized
  delay, up to some bound", the bound being the utility's own. The bound is the
  parameter \<open>tries\<close>, the number of further attempts after a failed one; the delay
  has no place in the model; the failure of the last attempt is the failure of the call.
  The transport being a function, every attempt of one call gets the same answer.
\<close>

fun Retry ::
  "nat \<Rightarrow> (session \<Rightarrow> (error + 'a) \<times> session) \<Rightarrow> session \<Rightarrow> (error + 'a) \<times> session" where
  "Retry 0 f self = f self"
| "Retry (Suc tries) f self =
     (case f self of
        (Inl e, self') \<Rightarrow> Retry tries f self'
      | (Inr r, self') \<Rightarrow> (Inr r, self'))"

text \<open>
  The four verbs, lines 106-206. The defaults of the signatures are the caller's to
  pass: \<open>None\<close> for \<open>data\<close> and \<open>headers'\<close>, the empty tuple for \<open>auth\<close>,
  \<open>timeout'\<close> and \<open>status_codes\<close>, \<open>True\<close> for \<open>allow_redirects\<close> except in
  \<open>head\<close>, where it is \<open>False\<close>.
\<close>

definition get ::
  "nat \<Rightarrow> session \<Rightarrow> transport \<Rightarrow> string \<Rightarrow> dict option \<Rightarrow> string list \<Rightarrow> bool
     \<Rightarrow> int list \<Rightarrow> status_elem list \<Rightarrow> (error + Response) \<times> session" where
  "get tries self t url' headers' auth allow_redirects timeout' status_codes =
     Retry tries
       (\<lambda>self.
          case Request_request self t ''get'' url' [] (or_dict headers') auth
                 allow_redirects timeout' status_codes of
            (Inl e, self') \<Rightarrow> (Inl e, self')
          | (Inr req, self') \<Rightarrow> (Inr (Response req), self'))
       self"

definition post ::
  "nat \<Rightarrow> session \<Rightarrow> transport \<Rightarrow> string \<Rightarrow> dict option \<Rightarrow> dict option \<Rightarrow> string list
     \<Rightarrow> bool \<Rightarrow> int list \<Rightarrow> status_elem list \<Rightarrow> (error + Response) \<times> session" where
  "post tries self t url' data headers' auth allow_redirects timeout' status_codes =
     Retry tries
       (\<lambda>self.
          case Request_request self t ''post'' url' (or_dict data) (or_dict headers') auth
                 allow_redirects timeout' status_codes of
            (Inl e, self') \<Rightarrow> (Inl e, self')
          | (Inr req, self') \<Rightarrow> (Inr (Response req), self'))
       self"

definition head ::
  "nat \<Rightarrow> session \<Rightarrow> transport \<Rightarrow> string \<Rightarrow> dict option \<Rightarrow> string list \<Rightarrow> bool
     \<Rightarrow> int list \<Rightarrow> status_elem list \<Rightarrow> (error + Response) \<times> session" where
  "head tries self t url' headers' auth allow_redirects timeout' status_codes =
     Retry tries
       (\<lambda>self.
          case Request_request self t ''head'' url' [] (or_dict headers') auth
                 allow_redirects timeout' status_codes of
            (Inl e, self') \<Rightarrow> (Inl e, self')
          | (Inr req, self') \<Rightarrow> (Inr (Response req), self'))
       self"

definition patch ::
  "nat \<Rightarrow> session \<Rightarrow> transport \<Rightarrow> string \<Rightarrow> dict option \<Rightarrow> dict option \<Rightarrow> string list
     \<Rightarrow> bool \<Rightarrow> int list \<Rightarrow> status_elem list \<Rightarrow> (error + Response) \<times> session" where
  "patch tries self t url' data headers' auth allow_redirects timeout' status_codes =
     Retry tries
       (\<lambda>self.
          case Request_request self t ''patch'' url' (or_dict data) (or_dict headers') auth
                 allow_redirects timeout' status_codes of
            (Inl e, self') \<Rightarrow> (Inl e, self')
          | (Inr req, self') \<Rightarrow> (Inr (Response req), self'))
       self"

subsection \<open>Any of the four verbs\<close>

text \<open>
  The claims speak of "every verb call". \<open>verb_call\<close> is the call of one of the four
  verbs (\<open>get\<close> and \<open>head\<close> take no \<open>data\<close>), and \<open>verb_sent\<close> is what the
  transport answers to the request that verb sends.
\<close>

datatype verb = GET | POST | HEAD | PATCH

definition verb_call ::
  "verb \<Rightarrow> nat \<Rightarrow> session \<Rightarrow> transport \<Rightarrow> string \<Rightarrow> dict option \<Rightarrow> dict option
     \<Rightarrow> string list \<Rightarrow> bool \<Rightarrow> int list \<Rightarrow> status_elem list
     \<Rightarrow> (error + Response) \<times> session" where
  "verb_call v tries self t url' data headers' auth allow_redirects timeout' status_codes =
     (case v of
        GET \<Rightarrow> get tries self t url' headers' auth allow_redirects timeout' status_codes
      | POST \<Rightarrow> post tries self t url' data headers' auth allow_redirects timeout' status_codes
      | HEAD \<Rightarrow> head tries self t url' headers' auth allow_redirects timeout' status_codes
      | PATCH \<Rightarrow>
          patch tries self t url' data headers' auth allow_redirects timeout' status_codes)"

definition verb_sent ::
  "verb \<Rightarrow> session \<Rightarrow> transport \<Rightarrow> string \<Rightarrow> dict option \<Rightarrow> dict option \<Rightarrow> string list
     \<Rightarrow> bool \<Rightarrow> int list \<Rightarrow> error + raw_response" where
  "verb_sent v self t url' data headers' auth allow_redirects timeout' =
     (case v of
        GET \<Rightarrow>
          transport_call self t ''get'' url' [] (or_dict headers') auth allow_redirects timeout'
      | POST \<Rightarrow>
          transport_call self t ''post'' url' (or_dict data) (or_dict headers') auth
            allow_redirects timeout'
      | HEAD \<Rightarrow>
          transport_call self t ''head'' url' [] (or_dict headers') auth allow_redirects timeout'
      | PATCH \<Rightarrow>
          transport_call self t ''patch'' url' (or_dict data) (or_dict headers') auth
            allow_redirects timeout')"

text \<open>A transport that answers every request with the same raw response.\<close>

definition answering :: "raw_response \<Rightarrow> transport" where
  "answering req method url' data headers' auth allow_redirects timeout' = Inr req"

text \<open>
  An answer for the examples: the given url, status code and reason, no headers, the
  body \<^verbatim>\<open>body\<close>, which does not parse as structured data.
\<close>

definition example_answer :: "string \<Rightarrow> int \<Rightarrow> string \<Rightarrow> raw_response" where
  "example_answer u c r =
     \<lparr>url = u, headers = [], status_code = c, reason = r, body_text = ''body'', json = None\<rparr>"

section \<open>What one call does\<close>

lemma Retry_same: "snd (f self) = self \<Longrightarrow> Retry tries f self = f self"
  by (induction tries) (auto split: sum.splits prod.splits)

text \<open>The outcome of \<open>_request\<close> as a function of the transport's answer.\<close>

lemma Request_request_answer:
  assumes "transport_call self t method url' data headers' auth allow_redirects timeout' = Inr req"
  shows "Request_request self t method url' data headers' auth allow_redirects timeout' status_codes =
     (if status_code req = 429
      then (Inl (RateLimitedError (url req) (status_code req) (reason req)), self)
      else if not_allowed self status_codes req \<and> status_code req \<noteq> 200
      then
        (if status_code req \<noteq> 404 \<and> 400 \<le> status_code req \<and> status_code req < 600
         then (Inl (HTTPError req), self)
         else (Inl (UnexpectedStatusCode (url req) (status_code req) (reason req)
                      (body_text req)), self))
      else (Inr req, self))"
  using assms by (simp add: Request_request_def raise_for_status_def)

lemma Request_request_failure:
  assumes "transport_call self t method url' data headers' auth allow_redirects timeout' = Inl e"
  shows "Request_request self t method url' data headers' auth allow_redirects timeout' status_codes =
     (Inl e, self)"
  using assms by (simp add: Request_request_def)

lemma Request_request_frame:
  "snd (Request_request self t method url' data headers' auth allow_redirects timeout' status_codes)
     = self"
  by (cases "transport_call self t method url' data headers' auth allow_redirects timeout'")
     (simp_all add: Request_request_failure Request_request_answer)

text \<open>The outcome of a verb as a function of the transport's answer.\<close>

lemma verb_call_answer:
  assumes "verb_sent v self t url' data headers' auth allow_redirects timeout' = Inr req"
  shows "verb_call v tries self t url' data headers' auth allow_redirects timeout' status_codes =
     (if status_code req = 429
      then (Inl (RateLimitedError (url req) (status_code req) (reason req)), self)
      else if not_allowed self status_codes req \<and> status_code req \<noteq> 200
      then
        (if status_code req \<noteq> 404 \<and> 400 \<le> status_code req \<and> status_code req < 600
         then (Inl (HTTPError req), self)
         else (Inl (UnexpectedStatusCode (url req) (status_code req) (reason req)
                      (body_text req)), self))
      else (Inr (Response req), self))"
proof (cases v)
  case GET
  with assms have "transport_call self t ''get'' url' [] (or_dict headers') auth
      allow_redirects timeout' = Inr req"
    by (simp add: verb_sent_def)
  then show ?thesis
    unfolding verb_call_def get_def GET verb.case
    by (subst Retry_same) (simp_all add: Request_request_frame Request_request_answer split: prod.splits)
next
  case POST
  with assms have "transport_call self t ''post'' url' (or_dict data) (or_dict headers') auth
      allow_redirects timeout' = Inr req"
    by (simp add: verb_sent_def)
  then show ?thesis
    unfolding verb_call_def post_def POST verb.case
    by (subst Retry_same) (simp_all add: Request_request_frame Request_request_answer split: prod.splits)
next
  case HEAD
  with assms have "transport_call self t ''head'' url' [] (or_dict headers') auth
      allow_redirects timeout' = Inr req"
    by (simp add: verb_sent_def)
  then show ?thesis
    unfolding verb_call_def head_def HEAD verb.case
    by (subst Retry_same) (simp_all add: Request_request_frame Request_request_answer split: prod.splits)
next
  case PATCH
  with assms have "transport_call self t ''patch'' url' (or_dict data) (or_dict headers') auth
      allow_redirects timeout' = Inr req"
    by (simp add: verb_sent_def)
  then show ?thesis
    unfolding verb_call_def patch_def PATCH verb.case
    by (subst Retry_same) (simp_all add: Request_request_frame Request_request_answer split: prod.splits)
qed

lemma verb_call_failure:
  assumes "verb_sent v self t url' data headers' auth allow_redirects timeout' = Inl e"
  shows "verb_call v tries self t url' data headers' auth allow_redirects timeout' status_codes =
     (Inl e, self)"
proof (cases v)
  case GET
  with assms have "transport_call self t ''get'' url' [] (or_dict headers') auth
      allow_redirects timeout' = Inl e"
    by (simp add: verb_sent_def)
  then show ?thesis
    unfolding verb_call_def get_def GET verb.case
    by (subst Retry_same) (simp_all add: Request_request_frame Request_request_failure split: prod.splits)
next
  case POST
  with assms have "transport_call self t ''post'' url' (or_dict data) (or_dict headers') auth
      allow_redirects timeout' = Inl e"
    by (simp add: verb_sent_def)
  then show ?thesis
    unfolding verb_call_def post_def POST verb.case
    by (subst Retry_same) (simp_all add: Request_request_frame Request_request_failure split: prod.splits)
next
  case HEAD
  with assms have "transport_call self t ''head'' url' [] (or_dict headers') auth
      allow_redirects timeout' = Inl e"
    by (simp add: verb_sent_def)
  then show ?thesis
    unfolding verb_call_def head_def HEAD verb.case
    by (subst Retry_same) (simp_all add: Request_request_frame Request_request_failure split: prod.splits)
next
  case PATCH
  with assms have "transport_call self t ''patch'' url' (or_dict data) (or_dict headers') auth
      allow_redirects timeout' = Inl e"
    by (simp add: verb_sent_def)
  then show ?thesis
    unfolding verb_call_def patch_def PATCH verb.case
    by (subst Retry_same) (simp_all add: Request_request_frame Request_request_failure split: prod.splits)
qed

lemma verb_sent_answering:
  "verb_sent v self (answering req) url' data headers' auth allow_redirects timeout' = Inr req"
  by (cases v) (simp_all add: verb_sent_def transport_call_def answering_def)

section \<open>The claims\<close>

text \<open>
  In every statement below \<open>req\<close> is the answer of the transport to the request the
  call sends, \<open>tries\<close> is the bound of the retry decorator and may be any number, and
  the first component of a call's result is its outcome: \<open>Inl\<close> an exception raised,
  \<open>Inr\<close> the value returned.
\<close>

subsection \<open>C1: the native status error\<close>

text \<open>
  C1, as the code has it. For every verb call where the status code of the answer is
  outside the effective allow-list, is none of 200, 404 and 429, and the caller's
  \<open>status_codes\<close> hold no wildcard: the call raises the transport's native
  \<open>HTTPError\<close> when the status code is a client or a server error (400 to 599); for
  every other status code \<^verbatim>\<open>raise_for_status\<close> returns, and the call raises
  \<open>UnexpectedStatusCode\<close> with the answer's url, status code, reason and body text.
\<close>

theorem C1_native_error_for_client_and_server_errors:
  assumes "verb_sent v self t url' data headers' auth allow_redirects timeout' = Inr req"
    and "PyInt (status_code req) \<notin> set (effective_status_codes self status_codes)"
    and "PyStr ''*'' \<notin> set status_codes"
    and "status_code req \<noteq> 200" and "status_code req \<noteq> 404" and "status_code req \<noteq> 429"
  shows "fst (verb_call v tries self t url' data headers' auth allow_redirects timeout' status_codes) =
     (if 400 \<le> status_code req \<and> status_code req < 600
      then Inl (HTTPError req)
      else Inl (UnexpectedStatusCode (url req) (status_code req) (reason req) (body_text req)))"
  using assms by (simp add: verb_call_answer not_allowed_def)

text \<open>
  A \<open>post\<close> answered with 500 raises the native error.
\<close>

theorem C1_witness:
  "fst (post 3 Request_init (answering (example_answer ''https://a/'' 500 ''Internal Server Error''))
          ''https://a/'' (Some [(''a'', ''1'')]) None [] True [] [])
     = Inl (HTTPError (example_answer ''https://a/'' 500 ''Internal Server Error''))"
  using C1_native_error_for_client_and_server_errors
    [of POST Request_init "answering (example_answer ''https://a/'' 500 ''Internal Server Error'')"
        "''https://a/''" "Some [(''a'', ''1'')]" None "[]" True "[]"
        "example_answer ''https://a/'' 500 ''Internal Server Error''" "[]" 3]
  by (simp add: verb_sent_answering verb_call_def effective_status_codes_def Request_init_def
        example_answer_def)

text \<open>
  The claim as written fails at a redirect: a \<open>head\<close> (which does not follow
  redirects) answered with 301 under the default allow-list raises the typed
  \<open>UnexpectedStatusCode\<close>, not the native error.
\<close>

theorem C1_counterexample:
  "PyInt 301 \<notin> set (effective_status_codes Request_init [])
   \<and> PyStr ''*'' \<notin> set ([] :: status_elem list)
   \<and> fst (head 0 Request_init (answering (example_answer ''https://a/'' 301 ''Moved Permanently''))
            ''https://a/'' None [] False [] [])
       = Inl (UnexpectedStatusCode ''https://a/'' 301 ''Moved Permanently'' ''body'')
   \<and> is_LogException (UnexpectedStatusCode ''https://a/'' 301 ''Moved Permanently'' ''body'')"
  by (simp add: head_def Request_request_def transport_call_def answering_def or_dict_def
        not_allowed_def effective_status_codes_def Request_init_def example_answer_def
        raise_for_status_def)

subsection \<open>C2: when a Response is constructed\<close>

text \<open>
  C2, as the code has it. A verb call returns a \<open>Response\<close> exactly when the transport
  answered, the status code of the answer is not 429, and the status code is in the
  effective allow-list, or the caller's \<open>status_codes\<close> hold the wildcard, or the
  status code is 200, which is let through deliberately. In every other case, 404
  included, the call raises and no \<open>Response\<close> is constructed. The \<open>Response\<close>
  returned wraps the transport's answer.
\<close>

theorem C2_response_only_for_accepted_status:
  "fst (verb_call v tries self t url' data headers' auth allow_redirects timeout' status_codes)
       = Inr resp
   \<longleftrightarrow>
     verb_sent v self t url' data headers' auth allow_redirects timeout' = Inr (request resp)
     \<and> status_code (request resp) \<noteq> 429
     \<and> (PyInt (status_code (request resp)) \<in> set (effective_status_codes self status_codes)
        \<or> PyStr ''*'' \<in> set status_codes
        \<or> status_code (request resp) = 200)"
proof (cases "verb_sent v self t url' data headers' auth allow_redirects timeout'")
  case (Inl e)
  then show ?thesis by (simp add: verb_call_failure)
next
  case (Inr req)
  then show ?thesis
    by (cases resp) (auto simp add: verb_call_answer not_allowed_def)
qed

text \<open>
  A 404 under the default allow-list gives no \<open>Response\<close>; with 404 in the caller's
  allow-list it does.
\<close>

theorem C2_witness:
  "fst (get 3 Request_init (answering (example_answer ''https://a/'' 404 ''Not Found''))
          ''https://a/'' None [] True [] [])
     \<noteq> Inr (Response (example_answer ''https://a/'' 404 ''Not Found''))
   \<and> fst (get 3 Request_init (answering (example_answer ''https://a/'' 404 ''Not Found''))
          ''https://a/'' None [] True [] [PyInt 404])
     = Inr (Response (example_answer ''https://a/'' 404 ''Not Found''))"
  using C2_response_only_for_accepted_status
    [of GET 3 Request_init "answering (example_answer ''https://a/'' 404 ''Not Found'')"
        "''https://a/''" None None "[]" True "[]" "[]"
        "Response (example_answer ''https://a/'' 404 ''Not Found'')"]
    C2_response_only_for_accepted_status
    [of GET 3 Request_init "answering (example_answer ''https://a/'' 404 ''Not Found'')"
        "''https://a/''" None None "[]" True "[]" "[PyInt 404]"
        "Response (example_answer ''https://a/'' 404 ''Not Found'')"]
  by (simp add: verb_sent_answering verb_call_def effective_status_codes_def Request_init_def
        example_answer_def)

text \<open>
  The claim as written fails at 200: with the caller's allow-list (201,) a 200 is
  outside the effective allow-list and is not 404, and yet a \<open>Response\<close> is returned.
  The 404 that the claim lets through raises under the same allow-list.
\<close>

theorem C2_counterexample:
  "PyInt 200 \<notin> set (effective_status_codes Request_init [PyInt 201])
   \<and> (200 :: int) \<noteq> 404
   \<and> fst (get 0 Request_init (answering (example_answer ''https://a/'' 200 ''OK''))
            ''https://a/'' None [] True [] [PyInt 201])
       = Inr (Response (example_answer ''https://a/'' 200 ''OK''))
   \<and> fst (get 0 Request_init (answering (example_answer ''https://a/'' 404 ''Not Found''))
            ''https://a/'' None [] True [] [PyInt 201])
       = Inl (UnexpectedStatusCode ''https://a/'' 404 ''Not Found'' ''body'')"
  by (simp add: get_def Request_request_def transport_call_def answering_def or_dict_def
        not_allowed_def effective_status_codes_def Request_init_def example_answer_def)

subsection \<open>C3: rate limiting\<close>

text \<open>
  C3, as the code has it. For every verb call, if the transport answers with status
  429, the call fails with \<open>RateLimitedError\<close> carrying the url of the answer
  (\<^verbatim>\<open>request.url\<close>, the attribute of what the transport returned), the status code
  and the reason, whatever the caller's \<open>status_codes\<close> and the session's allow-list
  hold (429 and the wildcard included).
\<close>

theorem C3_rate_limited_whatever_the_allow_list:
  assumes "verb_sent v self t url' data headers' auth allow_redirects timeout' = Inr req"
    and "status_code req = 429"
  shows "fst (verb_call v tries self t url' data headers' auth allow_redirects timeout' status_codes)
     = Inl (RateLimitedError (url req) 429 (reason req))"
  using assms by (simp add: verb_call_answer)

text \<open>
  A \<open>patch\<close> with 429 and the wildcard in the caller's allow-list, and 429 in the
  session's.
\<close>

theorem C3_witness:
  "fst (patch 3 (Request_init\<lparr>allowed_status_codes := [PyInt 200, PyInt 429]\<rparr>)
          (answering (example_answer ''https://a/'' 429 ''Too Many Requests''))
          ''https://a/'' None None [] True [] [PyInt 429, PyStr ''*''])
     = Inl (RateLimitedError ''https://a/'' 429 ''Too Many Requests'')"
  using C3_rate_limited_whatever_the_allow_list
    [of PATCH "Request_init\<lparr>allowed_status_codes := [PyInt 200, PyInt 429]\<rparr>"
        "answering (example_answer ''https://a/'' 429 ''Too Many Requests'')"
        "''https://a/''" None None "[]" True "[]"
        "example_answer ''https://a/'' 429 ''Too Many Requests''" 3 "[PyInt 429, PyStr ''*'']"]
  by (simp add: verb_sent_answering verb_call_def example_answer_def)

text \<open>
  The claim as written says the error carries the requested url. The url carried is
  the answer's: when the transport reports another url than the one requested (after
  a redirect it followed, or after normalising the url), the error carries that one.
\<close>

theorem C3_counterexample:
  "fst (get 0 Request_init (answering (example_answer ''https://a/login'' 429 ''Too Many Requests''))
          ''https://a/'' None [] True [] [])
     = Inl (RateLimitedError ''https://a/login'' 429 ''Too Many Requests'')
   \<and> fst (get 0 Request_init (answering (example_answer ''https://a/login'' 429 ''Too Many Requests''))
          ''https://a/'' None [] True [] [])
     \<noteq> Inl (RateLimitedError ''https://a/'' 429 ''Too Many Requests'')"
  by (simp add: get_def Request_request_def transport_call_def answering_def or_dict_def
        example_answer_def)

subsection \<open>C4: an allowed status is wrapped\<close>

text \<open>
  C4, as the code has it. For every verb call where the status code of the answer is
  a member of the effective allow-list (the caller's \<open>status_codes\<close> if non-empty,
  else the session's \<open>allowed_status_codes\<close>) and is not 429, the call returns the
  answer wrapped in a \<open>Response\<close> and raises nothing.
\<close>

theorem C4_allowed_status_is_wrapped:
  assumes "verb_sent v self t url' data headers' auth allow_redirects timeout' = Inr req"
    and "PyInt (status_code req) \<in> set (effective_status_codes self status_codes)"
    and "status_code req \<noteq> 429"
  shows "fst (verb_call v tries self t url' data headers' auth allow_redirects timeout' status_codes)
     = Inr (Response req)"
  using assms by (simp add: verb_call_answer not_allowed_def)

text \<open>
  A \<open>get\<close> answered with 200 under the default allow-list, and a \<open>post\<close> answered
  with 201 under the caller's (200, 201).
\<close>

theorem C4_witness:
  "fst (get 3 Request_init (answering (example_answer ''https://a/'' 200 ''OK''))
          ''https://a/'' None [] True [] [])
     = Inr (Response (example_answer ''https://a/'' 200 ''OK''))
   \<and> fst (post 3 Request_init (answering (example_answer ''https://a/'' 201 ''Created''))
          ''https://a/'' (Some [(''a'', ''1'')]) None [] True [] [PyInt 200, PyInt 201])
     = Inr (Response (example_answer ''https://a/'' 201 ''Created''))"
  using C4_allowed_status_is_wrapped
    [of GET Request_init "answering (example_answer ''https://a/'' 200 ''OK'')"
        "''https://a/''" None None "[]" True "[]" "example_answer ''https://a/'' 200 ''OK''"
        "[]" 3]
    C4_allowed_status_is_wrapped
    [of POST Request_init "answering (example_answer ''https://a/'' 201 ''Created'')"
        "''https://a/''" "Some [(''a'', ''1'')]" None "[]" True "[]"
        "example_answer ''https://a/'' 201 ''Created''" "[PyInt 200, PyInt 201]" 3]
  by (simp add: verb_sent_answering verb_call_def effective_status_codes_def Request_init_def
        example_answer_def)

text \<open>
  The claim as written fails at 429: with 429 in the caller's allow-list, a 429 still
  raises \<open>RateLimitedError\<close>.
\<close>

theorem C4_counterexample:
  "PyInt 429 \<in> set (effective_status_codes Request_init [PyInt 429])
   \<and> fst (get 0 Request_init (answering (example_answer ''https://a/'' 429 ''Too Many Requests''))
            ''https://a/'' None [] True [] [PyInt 429])
       = Inl (RateLimitedError ''https://a/'' 429 ''Too Many Requests'')"
  by (simp add: get_def Request_request_def transport_call_def answering_def or_dict_def
        effective_status_codes_def example_answer_def)

subsection \<open>C5: the branch of a 200 outside the allow-list\<close>

text \<open>
  C5, as the code has it. In \<open>_request\<close> a 200 answer is always accepted and returned
  for wrapping; it never raises. The branch of line 98 is entered with status 200
  exactly when 200 is not in the effective allow-list and the caller's
  \<open>status_codes\<close> hold no wildcard; under the default session, with no
  \<open>status_codes\<close> from the caller, it is never entered with status 200.
\<close>

theorem C5_ok_is_always_accepted:
  assumes "transport_call self t method url' data headers' auth allow_redirects timeout' = Inr req"
    and "status_code req = 200"
  shows "fst (Request_request self t method url' data headers' auth allow_redirects timeout'
                status_codes) = Inr req
     \<and> (not_allowed self status_codes req
          \<longleftrightarrow> PyInt 200 \<notin> set (effective_status_codes self status_codes)
              \<and> PyStr ''*'' \<notin> set status_codes)
     \<and> \<not> not_allowed Request_init [] req"
  using assms
  by (simp add: Request_request_answer not_allowed_def effective_status_codes_def
        Request_init_def)

text \<open>
  A 200 under the caller's allow-list (201, 204): the branch is entered, the answer is
  returned.
\<close>

theorem C5_witness:
  "fst (Request_request Request_init (answering (example_answer ''https://a/'' 200 ''OK''))
          ''get'' ''https://a/'' [] [] [] True [] [PyInt 201, PyInt 204])
     = Inr (example_answer ''https://a/'' 200 ''OK'')
   \<and> not_allowed Request_init [PyInt 201, PyInt 204] (example_answer ''https://a/'' 200 ''OK'')
   \<and> \<not> not_allowed Request_init [] (example_answer ''https://a/'' 200 ''OK'')"
  using C5_ok_is_always_accepted
    [of Request_init "answering (example_answer ''https://a/'' 200 ''OK'')" "''get''"
        "''https://a/''" "[]" "[]" "[]" True "[]" "example_answer ''https://a/'' 200 ''OK''"
        "[PyInt 201, PyInt 204]"]
  by (simp add: transport_call_def answering_def effective_status_codes_def example_answer_def)

text \<open>
  The claim as written calls the branch unreachable. It is reached: the transport
  answers 200 (which is not 429, so line 98 is evaluated), and with the caller's
  allow-list (201,) the condition of line 98 holds.
\<close>

theorem C5_counterexample:
  "status_code (example_answer ''https://a/'' 200 ''OK'') = 200
   \<and> status_code (example_answer ''https://a/'' 200 ''OK'') \<noteq> 429
   \<and> transport_call Request_init (answering (example_answer ''https://a/'' 200 ''OK''))
        ''get'' ''https://a/'' [] [] [] True [] = Inr (example_answer ''https://a/'' 200 ''OK'')
   \<and> not_allowed Request_init [PyInt 201] (example_answer ''https://a/'' 200 ''OK'')"
  by (simp add: transport_call_def answering_def not_allowed_def effective_status_codes_def
        example_answer_def)

subsection \<open>C6: the wildcard of the caller\<close>

text \<open>
  C6. For every verb call where the caller's \<open>status_codes\<close> hold the wildcard
  \<^verbatim>\<open>"*"\<close>, every status code is accepted and the answer is returned wrapped in a
  \<open>Response\<close>, except 429, which raises \<open>RateLimitedError\<close>.
\<close>

theorem C6_wildcard_accepts_all_but_429:
  assumes "verb_sent v self t url' data headers' auth allow_redirects timeout' = Inr req"
    and "PyStr ''*'' \<in> set status_codes"
  shows "fst (verb_call v tries self t url' data headers' auth allow_redirects timeout' status_codes)
     = (if status_code req = 429
        then Inl (RateLimitedError (url req) (status_code req) (reason req))
        else Inr (Response req))"
  using assms by (simp add: verb_call_answer not_allowed_def)

text \<open>
  Under the wildcard a 503 is returned and a 429 raises.
\<close>

theorem C6_witness:
  "fst (get 3 Request_init (answering (example_answer ''https://a/'' 503 ''Service Unavailable''))
          ''https://a/'' None [] True [] [PyStr ''*''])
     = Inr (Response (example_answer ''https://a/'' 503 ''Service Unavailable''))
   \<and> fst (get 3 Request_init (answering (example_answer ''https://a/'' 429 ''Too Many Requests''))
          ''https://a/'' None [] True [] [PyStr ''*''])
     = Inl (RateLimitedError ''https://a/'' 429 ''Too Many Requests'')"
  using C6_wildcard_accepts_all_but_429
    [of GET Request_init "answering (example_answer ''https://a/'' 503 ''Service Unavailable'')"
        "''https://a/''" None None "[]" True "[]"
        "example_answer ''https://a/'' 503 ''Service Unavailable''" "[PyStr ''*'']" 3]
    C6_wildcard_accepts_all_but_429
    [of GET Request_init "answering (example_answer ''https://a/'' 429 ''Too Many Requests'')"
        "''https://a/''" None None "[]" True "[]"
        "example_answer ''https://a/'' 429 ''Too Many Requests''" "[PyStr ''*'']" 3]
  by (simp add: verb_sent_answering verb_call_def example_answer_def)

subsection \<open>C7: a 404 outside the allow-list\<close>

text \<open>
  C7. For every verb call where the transport answers with status 404, 404 is not in
  the effective allow-list and the caller's \<open>status_codes\<close> hold no wildcard, the
  call fails with \<open>UnexpectedStatusCode\<close> carrying the answer's url, the status code
  404, the reason and the body text.
\<close>

theorem C7_not_found_is_unexpected_status_code:
  assumes "verb_sent v self t url' data headers' auth allow_redirects timeout' = Inr req"
    and "status_code req = 404"
    and "PyInt 404 \<notin> set (effective_status_codes self status_codes)"
    and "PyStr ''*'' \<notin> set status_codes"
  shows "fst (verb_call v tries self t url' data headers' auth allow_redirects timeout' status_codes)
     = Inl (UnexpectedStatusCode (url req) 404 (reason req) (body_text req))"
  using assms by (simp add: verb_call_answer not_allowed_def)

text \<open>
  A \<open>head\<close> answered with 404 under the caller's allow-list (200, 301).
\<close>

theorem C7_witness:
  "fst (head 3 Request_init (answering (example_answer ''https://a/'' 404 ''Not Found''))
          ''https://a/'' None [] False [] [PyInt 200, PyInt 301])
     = Inl (UnexpectedStatusCode ''https://a/'' 404 ''Not Found'' ''body'')"
  using C7_not_found_is_unexpected_status_code
    [of HEAD Request_init "answering (example_answer ''https://a/'' 404 ''Not Found'')"
        "''https://a/''" None None "[]" False "[]"
        "example_answer ''https://a/'' 404 ''Not Found''" "[PyInt 200, PyInt 301]" 3]
  by (simp add: verb_sent_answering verb_call_def effective_status_codes_def example_answer_def)

subsection \<open>C8: the parsed body\<close>

text \<open>
  C8. When the body of a \<open>Response\<close> does not parse as structured data (the parse
  raises \<^verbatim>\<open>ValueError\<close>), its property \<open>json\<close> raises \<open>UnexpectedRequestResult\<close>
  with the response's status code and reason (and the answer's state); when the body
  parses, the property returns the parsed value.
\<close>

theorem C8_json_parsed_or_unexpected_request_result:
  "(json (request self) = None \<longrightarrow>
      Response_json self
        = Inl (UnexpectedRequestResult (status_code (request self)) (reason (request self))
                 (request self))
      \<and> Response_status_code self = status_code (request self)
      \<and> Response_reason self = reason (request self))
   \<and> (json (request self) = Some parsed \<longrightarrow> Response_json self = Inr parsed)"
  by (simp add: Response_json_def Response_status_code_def Response_reason_def)

text \<open>
  A body that does not parse, and the body \<^verbatim>\<open>[1, null]\<close>, which does.
\<close>

theorem C8_witness:
  "Response_json (Response (example_answer ''https://a/'' 200 ''OK''))
     = Inl (UnexpectedRequestResult 200 ''OK'' (example_answer ''https://a/'' 200 ''OK''))
   \<and> Response_json
       (Response ((example_answer ''https://a/'' 200 ''OK'')
          \<lparr>body_text := ''[1, null]'', json := Some (JArray [JNumber 1, JNull])\<rparr>))
     = Inr (JArray [JNumber 1, JNull])
   \<and> Response_status_code
       (Response ((example_answer ''https://a/'' 200 ''OK'')
          \<lparr>body_text := ''[1, null]'', json := Some (JArray [JNumber 1, JNull])\<rparr>))
     = 200"
  using C8_json_parsed_or_unexpected_request_result
    [of "Response (example_answer ''https://a/'' 200 ''OK'')" JNull]
    C8_json_parsed_or_unexpected_request_result
    [of "Response ((example_answer ''https://a/'' 200 ''OK'')
          \<lparr>body_text := ''[1, null]'', json := Some (JArray [JNumber 1, JNull])\<rparr>)"
        "JArray [JNumber 1, JNull]"]
  by (simp add: example_answer_def Response_status_code_def)

subsection \<open>C9: the session is left as it was\<close>

text \<open>
  C9. No verb call and no call of \<open>_request\<close> changes the session: \<open>base_url\<close>,
  \<open>request_headers\<close>, \<open>timeout\<close> and \<open>allowed_status_codes\<close> are after the call
  what they were before it, whether the call returns or raises. (The transport is
  handed the values of the session's defaults, not the session.)
\<close>

theorem C9_session_unchanged:
  "snd (verb_call v tries self t url' data headers' auth allow_redirects timeout' status_codes)
     = self
   \<and> snd (Request_request self t method url' data' headers'' auth' allow_redirects' timeout''
            status_codes') = self"
proof -
  have "snd (verb_call v tries self t url' data headers' auth allow_redirects timeout'
               status_codes) = self"
    by (cases "verb_sent v self t url' data headers' auth allow_redirects timeout'")
       (simp_all add: verb_call_failure verb_call_answer)
  then show ?thesis by (simp add: Request_request_frame)
qed

text \<open>
  A \<open>get\<close> that returns and a \<open>post\<close> that raises.
\<close>

theorem C9_witness:
  "snd (get 3 Request_init (answering (example_answer ''https://a/'' 200 ''OK''))
          ''https://a/'' None [] True [] []) = Request_init
   \<and> snd (post 3 (Request_init\<lparr>base_url := ''https://a/'', timeout := [1, 2]\<rparr>)
            (answering (example_answer ''https://a/'' 500 ''Internal Server Error''))
            ''https://a/'' None None [] True [] [])
       = Request_init\<lparr>base_url := ''https://a/'', timeout := [1, 2]\<rparr>"
  using C9_session_unchanged
    [of GET 3 Request_init "answering (example_answer ''https://a/'' 200 ''OK'')"
        "''https://a/''" None None "[]" True "[]" "[]"]
    C9_session_unchanged
    [of POST 3 "Request_init\<lparr>base_url := ''https://a/'', timeout := [1, 2]\<rparr>"
        "answering (example_answer ''https://a/'' 500 ''Internal Server Error'')"
        "''https://a/''" None None "[]" True "[]" "[]"]
  by (simp add: verb_call_def)

subsection \<open>C10: a wildcard in the session's allow-list\<close>

text \<open>
  C10, as the code has it. The wildcard counts only among the caller's
  \<open>status_codes\<close>. When the caller passes none and the session's
  \<open>allowed_status_codes\<close> hold \<^verbatim>\<open>"*"\<close>, the wildcard is ignored: the condition of
  line 98 holds for every status code that is not literally a member of the session's
  tuple, and every such status code other than 200 makes the call raise (429
  \<open>RateLimitedError\<close>, a client or server error other than 404 the native
  \<open>HTTPError\<close>, any other \<open>UnexpectedStatusCode\<close>). A 200 is accepted all the same.
\<close>

theorem C10_session_wildcard_is_ignored:
  assumes "verb_sent v self t url' data headers' auth allow_redirects timeout' = Inr req"
    and "PyStr ''*'' \<in> set (allowed_status_codes self)"
    and "PyInt (status_code req) \<notin> set (allowed_status_codes self)"
  shows "not_allowed self [] req
     \<and> fst (verb_call v tries self t url' data headers' auth allow_redirects timeout' [])
       = (if status_code req = 200 then Inr (Response req)
          else if status_code req = 429
          then Inl (RateLimitedError (url req) (status_code req) (reason req))
          else if status_code req \<noteq> 404 \<and> 400 \<le> status_code req \<and> status_code req < 600
          then Inl (HTTPError req)
          else Inl (UnexpectedStatusCode (url req) (status_code req) (reason req)
                      (body_text req)))"
  using assms by (simp add: verb_call_answer not_allowed_def effective_status_codes_def)

text \<open>
  A 201 under the session's allow-list (200, "*") raises.
\<close>

theorem C10_witness:
  "not_allowed (Request_init\<lparr>allowed_status_codes := [PyInt 200, PyStr ''*'']\<rparr>) []
     (example_answer ''https://a/'' 201 ''Created'')
   \<and> fst (get 3 (Request_init\<lparr>allowed_status_codes := [PyInt 200, PyStr ''*'']\<rparr>)
            (answering (example_answer ''https://a/'' 201 ''Created''))
            ''https://a/'' None [] True [] [])
       = Inl (UnexpectedStatusCode ''https://a/'' 201 ''Created'' ''body'')"
  using C10_session_wildcard_is_ignored
    [of GET "Request_init\<lparr>allowed_status_codes := [PyInt 200, PyStr ''*'']\<rparr>"
        "answering (example_answer ''https://a/'' 201 ''Created'')"
        "''https://a/''" None None "[]" True "[]"
        "example_answer ''https://a/'' 201 ''Created''" 3]
  by (simp add: verb_sent_answering verb_call_def example_answer_def)

text \<open>
  The claim as written fails at 200: under the session's allow-list ("*",) a 200 is
  not literally a member, and the call returns a \<open>Response\<close>.
\<close>

theorem C10_counterexample:
  "PyStr ''*'' \<in> set (allowed_status_codes (Request_init\<lparr>allowed_status_codes := [PyStr ''*'']\<rparr>))
   \<and> PyInt 200 \<notin> set (allowed_status_codes (Request_init\<lparr>allowed_status_codes := [PyStr ''*'']\<rparr>))
   \<and> fst (get 0 (Request_init\<lparr>allowed_status_codes := [PyStr ''*'']\<rparr>)
            (answering (example_answer ''https://a/'' 200 ''OK''))
            ''https://a/'' None [] True [] [])
       = Inr (Response (example_answer ''https://a/'' 200 ''OK''))"
  by (simp add: get_def Request_request_def transport_call_def answering_def or_dict_def
        not_allowed_def effective_status_codes_def Request_init_def example_answer_def)

end
